theory Spec2Isabelle
  imports Main "HOL-Library.Word"
begin

unbundle bit_operations_syntax

section \<open>The Essentia full node service (eth/backend.go) and the light API backend\<close>

text \<open>
  A shallow embedding of \<^verbatim>\<open>src/eth/backend.go\<close> (package \<^verbatim>\<open>ess\<close>) and of
  \<^verbatim>\<open>LesApiBackend.BloomStatus\<close> in \<^verbatim>\<open>src/les/api_backend.go\<close>.

  The service is a composition root: almost every statement of its methods is a call into
  another package (the chain, the pool, the protocol manager, the miner, the database).
  Those packages are collaborators. A call of a collaborator that only acts is an
  \<open>Effect\<close>, and every method returns the list of the effects it performed, in program
  order, next to its Go result and the updated receiver. A collaborator that returns
  something the method branches on is a function or a value the model takes as an argument.

  Go's \<^verbatim>\<open>int\<close> and \<^verbatim>\<open>uint\<close> are modelled at the width of the 64-bit targets:
  \<open>64 word\<close>, read signed (\<open>word_sle\<close>, \<open>word_sless\<close>, \<open>sint\<close>) for \<^verbatim>\<open>int\<close>;
  arithmetic wraps around as Go's does.
\<close>

subsection \<open>Basic types\<close>

type_synonym go_int = "64 word"
type_synonym go_uint = "64 word"
type_synonym uint64 = "64 word"
type_synonym uint32 = "32 word"
type_synonym byte = "8 word"

text \<open>\<^verbatim>\<open>common.Address\<close> is \<^verbatim>\<open>[20]byte\<close>, \<^verbatim>\<open>common.Hash\<close> is \<^verbatim>\<open>[32]byte\<close>; the zero
  value \<^verbatim>\<open>common.Address{}\<close> is the word 0.\<close>

type_synonym Address = "160 word"
type_synonym Hash = "256 word"

text \<open>A database handle: its identity, whether it is an \<^verbatim>\<open>*ethdb.LDBDatabase\<close>, and the one
  entry this file reads and writes, the schema-version marker.\<close>

record Database =
  dbName :: string
  isLDBDatabase :: bool
  DatabaseVersion :: go_int

subsection \<open>Declarations of other packages\<close>

text \<open>
  The file imports constants and functions of packages whose source is not at hand
  (\<^verbatim>\<open>consensus/ethash\<close>, \<^verbatim>\<open>eth/downloader\<close>, \<^verbatim>\<open>core\<close>, \<^verbatim>\<open>params\<close>, \<^verbatim>\<open>rlp\<close>,
  \<^verbatim>\<open>light\<close>) and of Go's \<^verbatim>\<open>runtime\<close>. The model takes them as parameters, collected in
  the record \<open>Imports\<close> below; nothing is assumed about their values except where a
  theorem says so.
\<close>

text \<open>\<^verbatim>\<open>ethash.Mode\<close> is \<^verbatim>\<open>uint\<close>, \<^verbatim>\<open>downloader.SyncMode\<close> is \<^verbatim>\<open>int\<close>.\<close>

type_synonym Mode = go_uint
type_synonym SyncMode = go_int

record EthashConfig =
  CacheDir :: string
  CachesInMem :: go_int
  CachesOnDisk :: go_int
  DatasetDir :: string
  DatasetsInMem :: go_int
  DatasetsOnDisk :: go_int
  PowMode :: Mode

record CliqueConfig =
  Period :: uint64
  Epoch :: uint64

text \<open>\<^verbatim>\<open>params.ChainConfig\<close>, as far as this file reads it: the \<^verbatim>\<open>Clique\<close> pointer, nil or
  not.\<close>

record ChainConfig =
  ChainID :: int
  Clique :: "CliqueConfig option"

text \<open>Go's \<^verbatim>\<open>error\<close> values. Each constructor stands for one error the file builds, with
  the arguments of its format string:
  \<^item> \<open>ErrLightSync\<close>: "can't run ess.Essentia in light sync mode, use les.LightEthereum";
  \<^item> \<open>ErrInvalidSyncMode m\<close>: "invalid sync mode %d";
  \<^item> \<open>ErrVersionMismatch stored current\<close>: "Blockchain DB version mismatch (%d / %d). Run
    geth upgradedb.";
  \<^item> \<open>ErrEtherbaseUnspecified\<close>: "etherbase must be explicitly specified";
  \<^item> \<open>ErrEtherbaseMissing e\<close>: "etherbase missing: %v";
  \<^item> \<open>ErrSignerMissing e\<close>: "signer missing: %v" (the argument may be nil);
  \<^item> \<open>ErrInvalidPeerConfig light total\<close>: "invalid peer config: light peer count (%d) >=
    total peer count (%d)";
  \<^item> \<open>ConfigCompatError rewindTo\<close>: a \<^verbatim>\<open>*params.ConfigCompatError\<close>;
  \<^item> \<open>ErrUnknownAccount\<close>: \<^verbatim>\<open>accounts.ErrUnknownAccount\<close>;
  \<^item> \<open>ErrOther msg\<close>: any other error a collaborator returns.\<close>

datatype Err =
    ErrLightSync
  | ErrInvalidSyncMode SyncMode
  | ErrVersionMismatch go_int go_int
  | ErrEtherbaseUnspecified
  | ErrEtherbaseMissing Err
  | ErrSignerMissing "Err option"
  | ErrInvalidPeerConfig go_int go_int
  | ConfigCompatError uint64
  | ErrUnknownAccount
  | ErrOther string

text \<open>The engine value records the constructor that built it and its arguments:
  \<^verbatim>\<open>clique.New(config, db)\<close> (the database by its name), \<^verbatim>\<open>ethash.NewFaker()\<close>,
  \<^verbatim>\<open>ethash.NewTester()\<close>, \<^verbatim>\<open>ethash.NewShared()\<close>, and \<^verbatim>\<open>ethash.New(config)\<close> followed by
  \<^verbatim>\<open>SetThreads(n)\<close>.\<close>

datatype Engine =
    CliqueNew CliqueConfig string
  | EthashNewFaker
  | EthashNewTester
  | EthashNewShared
  | EthashNew EthashConfig go_int

text \<open>Handles of collaborators that this file only passes on.\<close>

datatype EventMux = EventMuxHandle nat
datatype BlockChain = BlockChainHandle nat
datatype LesServer = LesServerHandle nat
datatype Genesis = GenesisHandle nat

record CacheConfig =
  Disabled :: bool
  TrieNodeLimit :: go_int
  TrieTimeLimit :: go_int

record VmConfig =
  vm_EnablePreimageRecording :: bool

record TxPoolConfig =
  Journal :: string

record GpoConfig =
  Blocks :: go_int
  Percentile :: go_int
  Default :: "int option"

text \<open>\<^verbatim>\<open>core.ChainIndexer\<close>: the database it indexes, its section size, and what its
  \<^verbatim>\<open>Sections\<close> method reports.\<close>

record ChainIndexer =
  indexerDb :: string
  sectionSize :: uint64
  storedSections :: uint64
  lastHead :: uint64
  lastHeadHash :: Hash

text \<open>Modelled from the spec: \<^verbatim>\<open>ChainIndexer.Sections\<close> is declared in core/chain_indexer.go,
  which is missing from the sources. The indexer "exposes introspection of how many
  complete sections exist": the first of its three results is the number of completed
  sections; the other two, which the callers here drop, describe the last indexed head.\<close>

definition Sections :: "ChainIndexer \<Rightarrow> uint64 \<times> uint64 \<times> Hash" where
  "Sections c = (storedSections c, lastHead c, lastHeadHash c)"

text \<open>\<^verbatim>\<open>ProtocolManager\<close>: this file writes its \<^verbatim>\<open>acceptTxs\<close> flag directly.\<close>

record ProtocolManager =
  pmNetworkId :: uint64
  acceptTxs :: uint32

datatype TxPool = NewTxPool TxPoolConfig ChainConfig BlockChain
datatype Miner = miner_New ChainConfig EventMux Engine
datatype Oracle = NewOracle GpoConfig

text \<open>\<^verbatim>\<open>p2p.Server\<close>, as far as \<^verbatim>\<open>Start\<close> reads it, and the network API bound to it.\<close>

record Server =
  serverName :: string
  MaxPeers :: go_int

datatype PublicNetAPI = NewPublicNetAPI Server uint64

text \<open>What \<^verbatim>\<open>rlp.EncodeToBytes\<close> is given in \<^verbatim>\<open>makeExtraData\<close>: a list of an unsigned integer
  and strings.\<close>

datatype RlpValue = RlpUint nat | RlpString string | RlpList "RlpValue list"

record Imports =
  ModeFake :: Mode
  ModeTest :: Mode
  ModeShared :: Mode
  FullSync :: SyncMode
  FastSync :: SyncMode
  LightSync :: SyncMode
  BlockChainVersion :: go_int
  BloomBitsBlocks :: uint64
  BloomTrieFrequency :: uint64
  MaximumExtraDataSize :: uint64
  VersionMajor :: nat
  VersionMinor :: nat
  VersionPatch :: nat
  runtime_Version :: string
  runtime_GOOS :: string
  EncodeToBytes :: "RlpValue \<Rightarrow> byte list \<times> Err option"
  SetupGenesisBlock :: "Database \<Rightarrow> Genesis option \<Rightarrow> ChainConfig \<times> Hash \<times> Err option"
  NewBloomIndexer :: "Database \<Rightarrow> uint64 \<Rightarrow> ChainIndexer"
  NewBlockChain :: "Database \<Rightarrow> CacheConfig \<Rightarrow> ChainConfig \<Rightarrow> Engine \<Rightarrow> VmConfig
                      \<Rightarrow> Err + BlockChain"
  NewProtocolManager :: "ChainConfig \<Rightarrow> SyncMode \<Rightarrow> uint64 \<Rightarrow> Engine \<Rightarrow> Err + ProtocolManager"

text \<open>Modelled from the spec: \<^verbatim>\<open>SyncMode.IsValid\<close> is declared in eth/downloader, which is
  missing from the sources. "Sync mode must be one of the valid enumerated modes", and the
  enumeration is "full/fast/light".\<close>

definition IsValid :: "Imports \<Rightarrow> SyncMode \<Rightarrow> bool" where
  "IsValid im mode = (mode = FullSync im \<or> mode = FastSync im \<or> mode = LightSync im)"

subsection \<open>Accounts\<close>

record Account =
  Address :: Address
  URL :: string

record Wallet =
  walletURL :: string
  Accounts :: "Account list"

record Manager =
  Wallets :: "Wallet list"

text \<open>Modelled from the spec: \<^verbatim>\<open>accounts.Manager.Find\<close> is declared in package accounts,
  which is missing from the sources. It looks for "a usable local signing capability for
  that address": the first wallet that holds an account with the address, and
  \<^verbatim>\<open>ErrUnknownAccount\<close> when no wallet does.\<close>

definition Contains :: "Wallet \<Rightarrow> Account \<Rightarrow> bool" where
  "Contains w account = (Address account \<in> set (map Address (Accounts w)))"

definition Find :: "Manager \<Rightarrow> Account \<Rightarrow> Wallet option \<times> Err option" where
  "Find am account =
     (case find (\<lambda>w. Contains w account) (Wallets am) of
        None \<Rightarrow> (None, Some ErrUnknownAccount)
      | Some w \<Rightarrow> (Some w, None))"

subsection \<open>Configuration, service context, effects\<close>

record Config =
  Genesis :: "Genesis option"
  NetworkId :: uint64
  SyncMode :: SyncMode
  NoPruning :: bool
  LightServ :: go_int
  LightPeers :: go_int
  SkipBcVersionCheck :: bool
  DatabaseHandles :: go_int
  DatabaseCache :: go_int
  TrieCache :: go_int
  TrieTimeout :: go_int
  Etherbase :: Address
  ExtraData :: "byte list"
  GasPrice :: "int option"
  Ethash :: EthashConfig
  TxPool :: TxPoolConfig
  GPO :: GpoConfig
  EnablePreimageRecording :: bool

text \<open>\<^verbatim>\<open>node.ServiceContext\<close>: its methods \<^verbatim>\<open>OpenDatabase\<close> and \<^verbatim>\<open>ResolvePath\<close> and its
  fields \<^verbatim>\<open>EventMux\<close> and \<^verbatim>\<open>AccountManager\<close>.\<close>

record ServiceContext =
  OpenDatabase :: "string \<Rightarrow> go_int \<Rightarrow> go_int \<Rightarrow> Err + Database"
  ResolvePath :: "string \<Rightarrow> string"
  EventMux :: EventMux
  AccountManager :: Manager

datatype LogLevel = LvlInfo | LvlWarn | LvlError

text \<open>The calls a method makes that act on a collaborator, named after the statement of
  the source: \<open>bloomIndexer_Close\<close> is \<^verbatim>\<open>s.bloomIndexer.Close()\<close>, \<open>go_miner_Start eb\<close> is
  \<^verbatim>\<open>go s.miner.Start(eb)\<close> (the goroutine is spawned; the method does not wait for it),
  \<open>atomic_StoreUint32_acceptTxs v\<close> is
  \<^verbatim>\<open>atomic.StoreUint32(&s.protocolManager.acceptTxs, v)\<close>, \<open>log lvl msg\<close> is a line of the
  log.\<close>

datatype Effect =
    log LogLevel string
  | ctx_OpenDatabase string
  | db_Meter string
  | core_SetupGenesisBlock
  | call_NewBloomIndexer
  | rawdb_WriteDatabaseVersion go_int
  | core_NewBlockChain
  | blockchain_SetHead uint64
  | rawdb_WriteChainConfig Hash
  | bloomIndexer_Start
  | core_NewTxPool
  | call_NewProtocolManager
  | call_miner_New
  | miner_SetExtra "byte list"
  | gasprice_NewOracle
  | miner_SetEtherbase Address
  | clique_Authorize Address Wallet
  | atomic_StoreUint32_acceptTxs uint32
  | go_miner_Start Address
  | startBloomHandlers
  | protocolManager_Start go_int
  | lesServer_Start Server
  | bloomIndexer_Close
  | blockchain_Stop
  | protocolManager_Stop
  | lesServer_Stop
  | txPool_Stop
  | miner_Stop
  | eventMux_Stop
  | chainDb_Close
  | close_shutdownChan

text \<open>A channel value is nil, open or closed. \<^verbatim>\<open>close\<close> of an open channel closes it;
  \<^verbatim>\<open>close\<close> of a closed or of a nil channel panics.\<close>

datatype Chan = ChanNil | ChanOpen | ChanClosed

datatype 'a Outcome = Returns 'a | Panics string

record EthAPIBackend =
  gpo :: "Oracle option"

record Essentia =
  config :: Config
  chainConfig :: ChainConfig
  shutdownChan :: Chan
  txPool :: TxPool
  blockchain :: BlockChain
  protocolManager :: ProtocolManager
  lesServer :: "LesServer option"
  chainDb :: Database
  eventMux :: EventMux
  engine :: Engine
  accountManager :: Manager
  bloomIndexer :: ChainIndexer
  APIBackend :: EthAPIBackend
  miner :: Miner
  gasPrice :: "int option"
  etherbase :: Address
  networkID :: uint64
  netRPCService :: "PublicNetAPI option"

subsection \<open>makeExtraData\<close>

text \<open>The default payload: \<^verbatim>\<open>rlp.EncodeToBytes\<close> of the version number, "geth", the Go
  version and the operating system. The error of the encoder is dropped (\<^verbatim>\<open>extra, _ =\<close>).\<close>

definition defaultExtraData :: "Imports \<Rightarrow> byte list" where
  "defaultExtraData im =
     fst (EncodeToBytes im
       (RlpList
          [RlpUint (push_bit 16 (VersionMajor im) OR push_bit 8 (VersionMinor im) OR VersionPatch im),
           RlpString ''geth'',
           RlpString (runtime_Version im),
           RlpString (runtime_GOOS im)]))"

definition makeExtraData :: "Imports \<Rightarrow> byte list \<Rightarrow> byte list \<times> Effect list" where
  "makeExtraData im extra0 =
     (let extra = (if length extra0 = 0 then defaultExtraData im else extra0)
      in if unat (MaximumExtraDataSize im) < length extra
         then ([], [log LvlWarn ''Miner extra data exceed limit''])
         else (extra, []))"

subsection \<open>CreateDB and CreateConsensusEngine\<close>

definition CreateDB :: "ServiceContext \<Rightarrow> Config \<Rightarrow> string \<Rightarrow> (Err + Database) \<times> Effect list" where
  "CreateDB ctx cfg name =
     (case OpenDatabase ctx name (DatabaseCache cfg) (DatabaseHandles cfg) of
        Inl err \<Rightarrow> (Inl err, [ctx_OpenDatabase name])
      | Inr db \<Rightarrow>
          (Inr db,
           ctx_OpenDatabase name #
             (if isLDBDatabase db then [db_Meter ''ess/db/chaindata/''] else [])))"

text \<open>\<^verbatim>\<open>CreateConsensusEngine(ctx, config, chainConfig, db)\<close>. A Go \<^verbatim>\<open>switch\<close> takes the first
  case that matches, as the chain of conditionals does. The literal given to
  \<^verbatim>\<open>ethash.New\<close> leaves \<^verbatim>\<open>PowMode\<close> at its zero value and resolves \<^verbatim>\<open>CacheDir\<close> only.\<close>

definition CreateConsensusEngine ::
  "Imports \<Rightarrow> ServiceContext \<Rightarrow> EthashConfig \<Rightarrow> ChainConfig \<Rightarrow> Database
     \<Rightarrow> Engine \<times> Effect list" where
  "CreateConsensusEngine im ctx ecfg ccfg db =
     (case Clique ccfg of
        Some c \<Rightarrow> (CliqueNew c (dbName db), [])
      | None \<Rightarrow>
          if PowMode ecfg = ModeFake im
            then (EthashNewFaker, [log LvlWarn ''Ethash used in fake mode''])
          else if PowMode ecfg = ModeTest im
            then (EthashNewTester, [log LvlWarn ''Ethash used in test mode''])
          else if PowMode ecfg = ModeShared im
            then (EthashNewShared, [log LvlWarn ''Ethash used in shared mode''])
          else
            (EthashNew
               \<lparr> CacheDir = ResolvePath ctx (CacheDir ecfg),
                 CachesInMem = CachesInMem ecfg,
                 CachesOnDisk = CachesOnDisk ecfg,
                 DatasetDir = DatasetDir ecfg,
                 DatasetsInMem = DatasetsInMem ecfg,
                 DatasetsOnDisk = DatasetsOnDisk ecfg,
                 PowMode = 0 \<rparr>
               (- 1), []))"

subsection \<open>New\<close>

text \<open>Modelled from the spec: \<^verbatim>\<open>rawdb.ReadDatabaseVersion\<close> and
  \<^verbatim>\<open>rawdb.WriteDatabaseVersion\<close> are declared in core/rawdb, which is missing from the
  sources. They read and write "the on-disk database version"; "a zero (absent) version
  is treated as not yet set", so reading a database that holds no marker gives 0.\<close>

definition ReadDatabaseVersion :: "Database \<Rightarrow> go_int" where
  "ReadDatabaseVersion db = DatabaseVersion db"

definition WriteDatabaseVersion :: "Database \<Rightarrow> go_int \<Rightarrow> Database" where
  "WriteDatabaseVersion db v = db\<lparr>DatabaseVersion := v\<rparr>"

text \<open>The type assertion \<^verbatim>\<open>genesisErr.(*params.ConfigCompatError)\<close>: whether it holds, and
  the field \<^verbatim>\<open>RewindTo\<close> of the error when it does.\<close>

fun isConfigCompatError :: "Err option \<Rightarrow> bool" where
  "isConfigCompatError (Some (ConfigCompatError n)) = True"
| "isConfigCompatError e = False"

fun RewindTo :: "Err option \<Rightarrow> uint64" where
  "RewindTo (Some (ConfigCompatError n)) = n"
| "RewindTo e = 0"

text \<open>\<^verbatim>\<open>New\<close> is one long function; the model cuts it in three at the places where it may
  return early. \<open>New_services\<close> is the part after the bloom indexer is started: the journal
  path, the transaction pool, the protocol manager, the miner, the API backend and the
  gas price oracle. \<^verbatim>\<open>config\<close> is a pointer, so the resolved journal path is also what
  the node's \<^verbatim>\<open>config\<close> field shows.\<close>

definition New_services ::
  "Imports \<Rightarrow> ServiceContext \<Rightarrow> Config \<Rightarrow> Database \<Rightarrow> ChainConfig \<Rightarrow> Engine \<Rightarrow> ChainIndexer
     \<Rightarrow> BlockChain \<Rightarrow> (Err + Essentia) \<times> Effect list" where
  "New_services im ctx cfg db ccfg eng indexer bc =
     (let cfg1 = (if Journal (TxPool cfg) \<noteq> []
                  then cfg\<lparr>TxPool := (TxPool cfg)\<lparr>Journal := ResolvePath ctx (Journal (TxPool cfg))\<rparr>\<rparr>
                  else cfg);
          pool = NewTxPool (TxPool cfg1) ccfg bc
      in case NewProtocolManager im ccfg (SyncMode cfg1) (NetworkId cfg1) eng of
           Inl err \<Rightarrow> (Inl err, [core_NewTxPool, call_NewProtocolManager])
         | Inr pm \<Rightarrow>
             (let (extra, fx) = makeExtraData im (ExtraData cfg1);
                  gpoParams = (if Default (GPO cfg1) = None
                               then (GPO cfg1)\<lparr>Default := GasPrice cfg1\<rparr>
                               else GPO cfg1)
              in (Inr \<lparr> config = cfg1,
                        chainConfig = ccfg,
                        shutdownChan = ChanOpen,
                        txPool = pool,
                        blockchain = bc,
                        protocolManager = pm,
                        lesServer = None,
                        chainDb = db,
                        eventMux = EventMux ctx,
                        engine = eng,
                        accountManager = AccountManager ctx,
                        bloomIndexer = indexer,
                        APIBackend = \<lparr> gpo = Some (NewOracle gpoParams) \<rparr>,
                        miner = miner_New ccfg (EventMux ctx) eng,
                        gasPrice = GasPrice cfg1,
                        etherbase = Etherbase cfg1,
                        networkID = NetworkId cfg1,
                        netRPCService = None \<rparr>,
                  [core_NewTxPool, call_NewProtocolManager, call_miner_New] @ fx
                    @ [miner_SetExtra extra, gasprice_NewOracle])))"

text \<open>\<open>New_chain\<close> is the part from \<^verbatim>\<open>core.NewBlockChain\<close> to the start of the bloom
  indexer.\<close>

definition New_chain ::
  "Imports \<Rightarrow> ServiceContext \<Rightarrow> Config \<Rightarrow> Database \<Rightarrow> ChainConfig \<Rightarrow> Hash \<Rightarrow> Err option \<Rightarrow> Engine
     \<Rightarrow> ChainIndexer \<Rightarrow> (Err + Essentia) \<times> Effect list" where
  "New_chain im ctx cfg db ccfg genesisHash genesisErr eng indexer =
     (let vmConfig = \<lparr> vm_EnablePreimageRecording = EnablePreimageRecording cfg \<rparr>;
          cacheConfig = \<lparr> Disabled = NoPruning cfg, TrieNodeLimit = TrieCache cfg,
                          TrieTimeLimit = TrieTimeout cfg \<rparr>
      in case NewBlockChain im db cacheConfig ccfg eng vmConfig of
           Inl err \<Rightarrow> (Inl err, [core_NewBlockChain])
         | Inr bc \<Rightarrow>
             (let fx1 = (if isConfigCompatError genesisErr
                         then [log LvlWarn ''Rewinding chain to upgrade configuration'',
                               blockchain_SetHead (RewindTo genesisErr),
                               rawdb_WriteChainConfig genesisHash]
                         else []);
                  (r, fx2) = New_services im ctx cfg db ccfg eng indexer bc
              in (r, core_NewBlockChain # fx1 @ [bloomIndexer_Start] @ fx2)))"

text \<open>\<open>New_check\<close> is the part from the construction of the \<^verbatim>\<open>Essentia\<close> literal (the
  consensus engine and the bloom indexer) through the check of the database version.\<close>

definition New_check ::
  "Imports \<Rightarrow> ServiceContext \<Rightarrow> Config \<Rightarrow> Database \<Rightarrow> ChainConfig \<Rightarrow> Hash \<Rightarrow> Err option
     \<Rightarrow> (Err + Essentia) \<times> Effect list" where
  "New_check im ctx cfg db ccfg genesisHash genesisErr =
     (let (eng, fx1) = CreateConsensusEngine im ctx (Ethash cfg) ccfg db;
          indexer = NewBloomIndexer im db (BloomBitsBlocks im);
          fx2 = log LvlInfo ''Initialised chain configuration'' # fx1
                  @ [call_NewBloomIndexer, log LvlInfo ''Initialising Essentia protocol'']
      in if \<not> SkipBcVersionCheck cfg
         then (let bcVersion = ReadDatabaseVersion db
               in if bcVersion \<noteq> BlockChainVersion im \<and> bcVersion \<noteq> 0
                  then (Inl (ErrVersionMismatch bcVersion (BlockChainVersion im)), fx2)
                  else (let (r, fx3) = New_chain im ctx cfg
                                         (WriteDatabaseVersion db (BlockChainVersion im))
                                         ccfg genesisHash genesisErr eng indexer
                        in (r, fx2 @ rawdb_WriteDatabaseVersion (BlockChainVersion im) # fx3)))
         else (let (r, fx3) = New_chain im ctx cfg db ccfg genesisHash genesisErr eng indexer
               in (r, fx2 @ fx3)))"

text \<open>\<^verbatim>\<open>New(ctx, config)\<close>: \<open>Inl err\<close> is \<^verbatim>\<open>return nil, err\<close>, \<open>Inr ess\<close> is
  \<^verbatim>\<open>return ess, nil\<close>.\<close>

definition New :: "Imports \<Rightarrow> ServiceContext \<Rightarrow> Config \<Rightarrow> (Err + Essentia) \<times> Effect list" where
  "New im ctx cfg =
     (if SyncMode cfg = LightSync im then (Inl ErrLightSync, [])
      else if \<not> IsValid im (SyncMode cfg) then (Inl (ErrInvalidSyncMode (SyncMode cfg)), [])
      else case CreateDB ctx cfg ''chaindata'' of
             (Inl err, fx1) \<Rightarrow> (Inl err, fx1)
           | (Inr db, fx1) \<Rightarrow>
               (case SetupGenesisBlock im db (Genesis cfg) of
                  (ccfg, genesisHash, genesisErr) \<Rightarrow>
                    if genesisErr \<noteq> None \<and> \<not> isConfigCompatError genesisErr
                    then (Inl (the genesisErr), fx1 @ [core_SetupGenesisBlock])
                    else (let (r, fx2) = New_check im ctx cfg db ccfg genesisHash genesisErr
                          in (r, fx1 @ core_SetupGenesisBlock # fx2))))"

subsection \<open>Etherbase, SetEtherbase, StartMining\<close>

text \<open>\<^verbatim>\<open>Essentia.Etherbase()\<close>. The method may write the field \<^verbatim>\<open>etherbase\<close>, so it returns
  the receiver too. The lock only orders concurrent callers; a single call is what is
  modelled.\<close>

definition Essentia_Etherbase ::
  "Essentia \<Rightarrow> (Address \<times> Err option) \<times> Essentia \<times> Effect list" where
  "Essentia_Etherbase s =
     (if etherbase s \<noteq> 0 then ((etherbase s, None), s, [])
      else case Wallets (accountManager s) of
             w # ws \<Rightarrow>
               (case Accounts w of
                  a # as \<Rightarrow>
                    ((Address a, None), s\<lparr>etherbase := Address a\<rparr>,
                     [log LvlInfo ''Etherbase automatically configured''])
                | [] \<Rightarrow> ((0, Some ErrEtherbaseUnspecified), s, []))
           | [] \<Rightarrow> ((0, Some ErrEtherbaseUnspecified), s, []))"

definition SetEtherbase :: "Essentia \<Rightarrow> Address \<Rightarrow> Essentia \<times> Effect list" where
  "SetEtherbase s a = (s\<lparr>etherbase := a\<rparr>, [miner_SetEtherbase a])"

text \<open>The type assertion \<^verbatim>\<open>s.engine.(*clique.Clique)\<close>.\<close>

fun isClique :: "Engine \<Rightarrow> bool" where
  "isClique (CliqueNew c d) = True"
| "isClique e = False"

text \<open>\<^verbatim>\<open>Essentia.StartMining(local)\<close>. \<^verbatim>\<open>clique.Authorize(eb, wallet.SignHash)\<close> is recorded
  with the wallet whose signing function it is given.\<close>

definition StartMining :: "Essentia \<Rightarrow> bool \<Rightarrow> Err option \<times> Essentia \<times> Effect list" where
  "StartMining s local =
     (case Essentia_Etherbase s of
        ((eb, Some err), s1, fx1) \<Rightarrow>
          (Some (ErrEtherbaseMissing err), s1,
           fx1 @ [log LvlError ''Cannot start mining without etherbase''])
      | ((eb, None), s1, fx1) \<Rightarrow>
          (let (wallet, err) = Find (accountManager s1) \<lparr> Address = eb, URL = [] \<rparr>
           in if isClique (engine s1) \<and> (wallet = None \<or> err \<noteq> None)
              then (Some (ErrSignerMissing err), s1,
                    fx1 @ [log LvlError ''Etherbase account unavailable locally''])
              else (let fx2 = (if isClique (engine s1) then [clique_Authorize eb (the wallet)]
                               else []);
                        s2 = (if local
                              then s1\<lparr>protocolManager := (protocolManager s1)\<lparr>acceptTxs := 1\<rparr>\<rparr>
                              else s1);
                        fx3 = (if local then [atomic_StoreUint32_acceptTxs 1] else [])
                    in (None, s2, fx1 @ fx2 @ fx3 @ [go_miner_Start eb]))))"

subsection \<open>Start and Stop\<close>

definition NetVersion :: "Essentia \<Rightarrow> uint64" where
  "NetVersion s = networkID s"

text \<open>\<^verbatim>\<open>Essentia.Start(srvr)\<close>. \<open>Start_network\<close> is its end, from
  \<^verbatim>\<open>s.protocolManager.Start(maxPeers)\<close> on. The comparisons are those of Go's signed
  \<^verbatim>\<open>int\<close>, the subtraction wraps around.\<close>

definition Start_network :: "Essentia \<Rightarrow> Server \<Rightarrow> go_int \<Rightarrow> Err option \<times> Essentia \<times> Effect list" where
  "Start_network s srvr maxPeers =
     (None, s,
      protocolManager_Start maxPeers # (if lesServer s \<noteq> None then [lesServer_Start srvr] else []))"

definition Start :: "Essentia \<Rightarrow> Server \<Rightarrow> Err option \<times> Essentia \<times> Effect list" where
  "Start s srvr =
     (let s1 = s\<lparr>netRPCService := Some (NewPublicNetAPI srvr (NetVersion s))\<rparr>;
          maxPeers = MaxPeers srvr;
          (err, s2, fx) =
            (if word_sless 0 (LightServ (config s1))
             then (if word_sle (MaxPeers srvr) (LightPeers (config s1))
                   then (Some (ErrInvalidPeerConfig (LightPeers (config s1)) (MaxPeers srvr)),
                         s1, [])
                   else Start_network s1 srvr (maxPeers - LightPeers (config s1)))
             else Start_network s1 srvr maxPeers)
      in (err, s2, startBloomHandlers # fx))"

text \<open>\<^verbatim>\<open>Essentia.Stop()\<close>. The results of the collaborators' \<^verbatim>\<open>Stop\<close> and \<^verbatim>\<open>Close\<close> are
  dropped by the source. The last statement, \<^verbatim>\<open>close(s.shutdownChan)\<close>, panics unless the
  channel is open.\<close>

definition Stop :: "Essentia \<Rightarrow> Err option Outcome \<times> Essentia \<times> Effect list" where
  "Stop s =
     (let fx = [bloomIndexer_Close, blockchain_Stop, protocolManager_Stop]
                 @ (if lesServer s \<noteq> None then [lesServer_Stop] else [])
                 @ [txPool_Stop, miner_Stop, eventMux_Stop, chainDb_Close]
      in case shutdownChan s of
           ChanOpen \<Rightarrow> (Returns None, s\<lparr>shutdownChan := ChanClosed\<rparr>, fx @ [close_shutdownChan])
         | ChanClosed \<Rightarrow> (Panics ''close of closed channel'', s, fx)
         | ChanNil \<Rightarrow> (Panics ''close of nil channel'', s, fx))"

subsection \<open>LesApiBackend.BloomStatus (les/api_backend.go)\<close>

text \<open>\<^verbatim>\<open>LightEthereum\<close>, as far as \<^verbatim>\<open>BloomStatus\<close> reads it: the pointer \<^verbatim>\<open>bloomIndexer\<close>,
  nil or not.\<close>

record LightEthereum =
  les_bloomIndexer :: "ChainIndexer option"

record LesApiBackend =
  ess :: LightEthereum

definition BloomStatus :: "Imports \<Rightarrow> LesApiBackend \<Rightarrow> uint64 \<times> uint64" where
  "BloomStatus im b =
     (case les_bloomIndexer (ess b) of
        None \<Rightarrow> (0, 0)
      | Some indexer \<Rightarrow>
          (case Sections indexer of
             (sections, head, headHash) \<Rightarrow> (BloomTrieFrequency im, sections)))"

subsection \<open>Reading an effect list\<close>

text \<open>What a list of effects says about the collaborators: the peer budgets the protocol
  manager was started with, whether the light server was started, whether mining was
  started.\<close>

fun pm_budgets :: "Effect list \<Rightarrow> go_int list" where
  "pm_budgets [] = []"
| "pm_budgets (protocolManager_Start n # fx) = n # pm_budgets fx"
| "pm_budgets (e # fx) = pm_budgets fx"

fun les_started :: "Effect list \<Rightarrow> bool" where
  "les_started [] = False"
| "les_started (lesServer_Start srvr # fx) = True"
| "les_started (e # fx) = les_started fx"

fun mining_started :: "Effect list \<Rightarrow> Address list" where
  "mining_started [] = []"
| "mining_started (go_miner_Start a # fx) = a # mining_started fx"
| "mining_started (e # fx) = mining_started fx"

subsection \<open>Example values\<close>

text \<open>Concrete values at which the theorems below are instantiated. The constants are
  those of go-ethereum: the ethash modes normal, shared, test, fake are 0 to 3, the sync
  modes full, fast, light are 0 to 2, the database version is 3, the extra data of a
  header is at most 32 bytes.\<close>

definition example_chainConfig :: ChainConfig where
  "example_chainConfig = \<lparr> ChainID = 1, Clique = None \<rparr>"

definition example_imports :: Imports where
  "example_imports =
     \<lparr> ModeFake = 3, ModeTest = 2, ModeShared = 1,
       FullSync = 0, FastSync = 1, LightSync = 2,
       BlockChainVersion = 3,
       BloomBitsBlocks = 4096, BloomTrieFrequency = 32768, MaximumExtraDataSize = 32,
       VersionMajor = 1, VersionMinor = 8, VersionPatch = 12,
       runtime_Version = ''go1.10'', runtime_GOOS = ''linux'',
       EncodeToBytes = (\<lambda>v. ([0xC0, 0x01], None)),
       SetupGenesisBlock = (\<lambda>db g. (example_chainConfig, 0, None)),
       NewBloomIndexer = (\<lambda>db n. \<lparr> indexerDb = dbName db, sectionSize = n,
                                     storedSections = 0, lastHead = 0, lastHeadHash = 0 \<rparr>),
       NewBlockChain = (\<lambda>db cc ccfg eng vmc. Inr (BlockChainHandle 0)),
       NewProtocolManager = (\<lambda>ccfg mode nid eng. Inr \<lparr> pmNetworkId = nid, acceptTxs = 0 \<rparr>) \<rparr>"

definition example_ethash :: EthashConfig where
  "example_ethash =
     \<lparr> CacheDir = ''ethash'', CachesInMem = 2, CachesOnDisk = 3, DatasetDir = ''/dag'',
       DatasetsInMem = 1, DatasetsOnDisk = 2, PowMode = 0 \<rparr>"

definition example_config :: Config where
  "example_config =
     \<lparr> Genesis = None, NetworkId = 1, SyncMode = 1, NoPruning = False,
       LightServ = 0, LightPeers = 5, SkipBcVersionCheck = False,
       DatabaseHandles = 256, DatabaseCache = 768, TrieCache = 256, TrieTimeout = 5,
       Etherbase = 0, ExtraData = [], GasPrice = Some 18000000000,
       Ethash = example_ethash, TxPool = \<lparr> Journal = ''transactions.rlp'' \<rparr>,
       GPO = \<lparr> Blocks = 20, Percentile = 60, Default = None \<rparr>,
       EnablePreimageRecording = False \<rparr>"

definition example_db :: "go_int \<Rightarrow> Database" where
  "example_db v = \<lparr> dbName = ''chaindata'', isLDBDatabase = True, DatabaseVersion = v \<rparr>"

definition example_account :: Account where
  "example_account = \<lparr> Address = 0xABCD, URL = ''keystore://a'' \<rparr>"

definition example_manager :: "Wallet list \<Rightarrow> Manager" where
  "example_manager ws = \<lparr> Wallets = ws \<rparr>"

definition example_ctx :: "go_int \<Rightarrow> ServiceContext" where
  "example_ctx v =
     \<lparr> OpenDatabase = (\<lambda>name cache handles. Inr (example_db v)),
       ResolvePath = (\<lambda>p. ''/data/'' @ p),
       EventMux = EventMuxHandle 0,
       AccountManager = example_manager [] \<rparr>"

definition example_node :: Essentia where
  "example_node =
     \<lparr> config = example_config,
       chainConfig = example_chainConfig,
       shutdownChan = ChanOpen,
       txPool = NewTxPool \<lparr> Journal = ''transactions.rlp'' \<rparr> example_chainConfig (BlockChainHandle 0),
       blockchain = BlockChainHandle 0,
       protocolManager = \<lparr> pmNetworkId = 1, acceptTxs = 0 \<rparr>,
       lesServer = None,
       chainDb = example_db 3,
       eventMux = EventMuxHandle 0,
       engine = EthashNewFaker,
       accountManager = example_manager [],
       bloomIndexer = \<lparr> indexerDb = ''chaindata'', sectionSize = 4096, storedSections = 0,
                        lastHead = 0, lastHeadHash = 0 \<rparr>,
       APIBackend = \<lparr> gpo = None \<rparr>,
       miner = miner_New example_chainConfig (EventMuxHandle 0) EthashNewFaker,
       gasPrice = Some 18000000000,
       etherbase = 0,
       networkID = 1,
       netRPCService = None \<rparr>"

section \<open>Properties\<close>

subsection \<open>Consensus engine selection\<close>

text \<open>
  C2. For every configuration whose proof-of-authority (Clique) sub-configuration is
  non-nil, \<open>CreateConsensusEngine\<close> returns the proof-of-authority engine built from that
  sub-configuration and the chain database, whatever the PoW mode is (and whatever the
  rest of the PoW configuration and the mode constants are); it logs nothing.
\<close>

theorem C2_clique_wins:
  "CreateConsensusEngine im ctx (ecfg\<lparr>PowMode := m\<rparr>) (ccfg\<lparr>Clique := Some c\<rparr>) db
     = (CliqueNew c (dbName db), [])"
  by (simp add: CreateConsensusEngine_def)

text \<open>
  C3. For every configuration whose Clique sub-configuration is nil, the PoW mode selects
  the engine: fake gives \<^verbatim>\<open>ethash.NewFaker()\<close>, test gives \<^verbatim>\<open>ethash.NewTester()\<close>, shared gives
  \<^verbatim>\<open>ethash.NewShared()\<close>, each with its warning in the log, and every other value of the
  mode, recognised or not, gives \<^verbatim>\<open>ethash.New\<close> of the configured cache directory (resolved
  against the node's data directory), dataset directory and the four retention counts,
  followed by \<^verbatim>\<open>SetThreads(-1)\<close>, which disables CPU mining in the engine. The three mode
  constants are distinct, as the cases of a Go \<^verbatim>\<open>switch\<close> over constants must be.
\<close>

theorem C3_ethash_modes:
  assumes "Clique ccfg = None"
      and "distinct [ModeFake im, ModeTest im, ModeShared im]"
  shows "(PowMode ecfg = ModeFake im \<longrightarrow>
            CreateConsensusEngine im ctx ecfg ccfg db
              = (EthashNewFaker, [log LvlWarn ''Ethash used in fake mode'']))
       \<and> (PowMode ecfg = ModeTest im \<longrightarrow>
            CreateConsensusEngine im ctx ecfg ccfg db
              = (EthashNewTester, [log LvlWarn ''Ethash used in test mode'']))
       \<and> (PowMode ecfg = ModeShared im \<longrightarrow>
            CreateConsensusEngine im ctx ecfg ccfg db
              = (EthashNewShared, [log LvlWarn ''Ethash used in shared mode'']))
       \<and> (PowMode ecfg \<notin> {ModeFake im, ModeTest im, ModeShared im} \<longrightarrow>
            CreateConsensusEngine im ctx ecfg ccfg db
              = (EthashNew
                   \<lparr> CacheDir = ResolvePath ctx (CacheDir ecfg),
                     CachesInMem = CachesInMem ecfg,
                     CachesOnDisk = CachesOnDisk ecfg,
                     DatasetDir = DatasetDir ecfg,
                     DatasetsInMem = DatasetsInMem ecfg,
                     DatasetsOnDisk = DatasetsOnDisk ecfg,
                     PowMode = 0 \<rparr>
                   (- 1), []))"
  using assms by (auto simp add: CreateConsensusEngine_def)

theorem C3_ethash_modes_witness:
  "CreateConsensusEngine example_imports (example_ctx 3) (example_ethash\<lparr>PowMode := 3\<rparr>)
       example_chainConfig (example_db 3)
     = (EthashNewFaker, [log LvlWarn ''Ethash used in fake mode''])
   \<and> CreateConsensusEngine example_imports (example_ctx 3) (example_ethash\<lparr>PowMode := 2\<rparr>)
       example_chainConfig (example_db 3)
     = (EthashNewTester, [log LvlWarn ''Ethash used in test mode''])
   \<and> CreateConsensusEngine example_imports (example_ctx 3) (example_ethash\<lparr>PowMode := 1\<rparr>)
       example_chainConfig (example_db 3)
     = (EthashNewShared, [log LvlWarn ''Ethash used in shared mode''])
   \<and> CreateConsensusEngine example_imports (example_ctx 3) (example_ethash\<lparr>PowMode := 9\<rparr>)
       example_chainConfig (example_db 3)
     = (EthashNew
          \<lparr> CacheDir = ''/data/ethash'', CachesInMem = 2, CachesOnDisk = 3,
            DatasetDir = ''/dag'', DatasetsInMem = 1, DatasetsOnDisk = 2, PowMode = 0 \<rparr>
          (- 1), [])"
  using C3_ethash_modes [of example_chainConfig example_imports "example_ethash\<lparr>PowMode := 3\<rparr>"
                            "example_ctx 3" "example_db 3"]
        C3_ethash_modes [of example_chainConfig example_imports "example_ethash\<lparr>PowMode := 2\<rparr>"
                            "example_ctx 3" "example_db 3"]
        C3_ethash_modes [of example_chainConfig example_imports "example_ethash\<lparr>PowMode := 1\<rparr>"
                            "example_ctx 3" "example_db 3"]
        C3_ethash_modes [of example_chainConfig example_imports "example_ethash\<lparr>PowMode := 9\<rparr>"
                            "example_ctx 3" "example_db 3"]
  by (simp add: example_chainConfig_def example_imports_def example_ethash_def example_ctx_def)

subsection \<open>Construction\<close>

text \<open>
  C4. \<open>New\<close> of a configuration whose sync mode is light returns the error "can't run
  ess.Essentia in light sync mode, use les.LightEthereum", and \<open>New\<close> of a configuration
  whose sync mode is not a valid one returns the error "invalid sync mode %d" of that
  mode. In both cases the result is the error alone (no node), and the list of effects is
  empty: no database was opened and no subsystem was built.
\<close>

theorem C4_New_rejects_sync_mode:
  "(SyncMode cfg = LightSync im \<longrightarrow> New im ctx cfg = (Inl ErrLightSync, []))
   \<and> (\<not> IsValid im (SyncMode cfg) \<longrightarrow>
        New im ctx cfg = (Inl (ErrInvalidSyncMode (SyncMode cfg)), []))"
  by (simp add: New_def IsValid_def)

theorem C4_New_rejects_sync_mode_witness:
  "New example_imports (example_ctx 3) (example_config\<lparr>SyncMode := 2\<rparr>) = (Inl ErrLightSync, [])
   \<and> New example_imports (example_ctx 3) (example_config\<lparr>SyncMode := 7\<rparr>)
        = (Inl (ErrInvalidSyncMode 7), [])"
  using C4_New_rejects_sync_mode [of "example_config\<lparr>SyncMode := 2\<rparr>" example_imports "example_ctx 3"]
        C4_New_rejects_sync_mode [of "example_config\<lparr>SyncMode := 7\<rparr>" example_imports "example_ctx 3"]
  by (simp add: example_imports_def example_config_def IsValid_def)

subsection \<open>makeExtraData\<close>

text \<open>
  C8. \<open>makeExtraData\<close> has no error result. A non-empty payload that is not longer than
  \<^verbatim>\<open>params.MaximumExtraDataSize\<close> is returned unchanged, with nothing logged; a longer one
  is replaced by nil, with the warning "Miner extra data exceed limit". The empty payload
  is replaced by the default one, the RLP encoding of the version number
  \<^verbatim>\<open>VersionMajor<<16 | VersionMinor<<8 | VersionPatch\<close>, the string "geth", the version of the
  Go runtime and the operating system, and the default one is treated the same way. In
  every case the result is within the limit.
\<close>

theorem C8_makeExtraData:
  "(extra \<noteq> [] \<and> length extra \<le> unat (MaximumExtraDataSize im)
      \<longrightarrow> makeExtraData im extra = (extra, []))
   \<and> (extra \<noteq> [] \<and> unat (MaximumExtraDataSize im) < length extra
      \<longrightarrow> makeExtraData im extra = ([], [log LvlWarn ''Miner extra data exceed limit'']))
   \<and> (length (defaultExtraData im) \<le> unat (MaximumExtraDataSize im)
      \<longrightarrow> makeExtraData im [] = (defaultExtraData im, []))
   \<and> (unat (MaximumExtraDataSize im) < length (defaultExtraData im)
      \<longrightarrow> makeExtraData im [] = ([], [log LvlWarn ''Miner extra data exceed limit'']))
   \<and> defaultExtraData im =
       fst (EncodeToBytes im
         (RlpList [RlpUint (VersionMajor im * 65536 OR VersionMinor im * 256 OR VersionPatch im),
                   RlpString ''geth'', RlpString (runtime_Version im),
                   RlpString (runtime_GOOS im)]))
   \<and> length (fst (makeExtraData im extra)) \<le> unat (MaximumExtraDataSize im)"
  by (simp add: makeExtraData_def defaultExtraData_def Let_def push_bit_eq_mult mult.commute)

theorem C8_makeExtraData_witness:
  "makeExtraData example_imports [1, 2, 3] = ([1, 2, 3], [])
   \<and> makeExtraData example_imports (replicate 33 7) = ([], [log LvlWarn ''Miner extra data exceed limit''])
   \<and> makeExtraData example_imports [] = ([0xC0, 0x01], [])
   \<and> makeExtraData (example_imports\<lparr>MaximumExtraDataSize := 1\<rparr>) []
        = ([], [log LvlWarn ''Miner extra data exceed limit''])"
  using C8_makeExtraData [of "[1, 2, 3]" example_imports]
        C8_makeExtraData [of "replicate 33 7" example_imports]
        C8_makeExtraData [of "[]" example_imports]
        C8_makeExtraData [of "[]" "example_imports\<lparr>MaximumExtraDataSize := 1\<rparr>"]
  by (simp add: example_imports_def defaultExtraData_def)

subsection \<open>Stop\<close>

text \<open>
  C7. A call of \<open>Stop\<close> on a node whose shutdown channel is open (as \<open>New\<close> makes it, and
  no other method of the file closes it), with or without a light server attached,
  performs exactly this sequence: close the bloom indexer, stop the chain, stop the
  protocol manager, stop the light server if there is one, stop the transaction pool,
  stop the miner, stop the event mux, close the database, close the shutdown channel. The
  channel is closed once, as the last step; the call returns nil and changes nothing else
  of the node.
\<close>

theorem C7_Stop_sequence:
  assumes "shutdownChan s = ChanOpen"
  shows "Stop s =
           (Returns None, s\<lparr>shutdownChan := ChanClosed\<rparr>,
            if lesServer s = None
            then [bloomIndexer_Close, blockchain_Stop, protocolManager_Stop,
                  txPool_Stop, miner_Stop, eventMux_Stop, chainDb_Close, close_shutdownChan]
            else [bloomIndexer_Close, blockchain_Stop, protocolManager_Stop, lesServer_Stop,
                  txPool_Stop, miner_Stop, eventMux_Stop, chainDb_Close, close_shutdownChan])
         \<and> count_list (snd (snd (Stop s))) close_shutdownChan = 1
         \<and> last (snd (snd (Stop s))) = close_shutdownChan"
  using assms by (simp add: Stop_def)

theorem C7_Stop_witness:
  "Stop example_node =
     (Returns None, example_node\<lparr>shutdownChan := ChanClosed\<rparr>,
      [bloomIndexer_Close, blockchain_Stop, protocolManager_Stop,
       txPool_Stop, miner_Stop, eventMux_Stop, chainDb_Close, close_shutdownChan])
   \<and> Stop (example_node\<lparr>lesServer := Some (LesServerHandle 0)\<rparr>) =
     (Returns None, example_node\<lparr>lesServer := Some (LesServerHandle 0), shutdownChan := ChanClosed\<rparr>,
      [bloomIndexer_Close, blockchain_Stop, protocolManager_Stop, lesServer_Stop,
       txPool_Stop, miner_Stop, eventMux_Stop, chainDb_Close, close_shutdownChan])"
  using C7_Stop_sequence [of example_node]
        C7_Stop_sequence [of "example_node\<lparr>lesServer := Some (LesServerHandle 0)\<rparr>"]
  by (simp add: example_node_def)

text \<open>A second call of \<open>Stop\<close> finds the channel closed: it runs the eight steps again and
  panics at \<^verbatim>\<open>close\<close>.\<close>

lemma Stop_twice_panics:
  "shutdownChan s = ChanOpen \<Longrightarrow> fst (Stop (fst (snd (Stop s)))) = Panics ''close of closed channel''"
  by (simp add: Stop_def)

subsection \<open>BloomStatus\<close>

text \<open>
  C10. \<open>BloomStatus\<close> is defined for every backend: when the bloom indexer is nil it
  returns (0, 0) and does not call the indexer; when there is an indexer it returns
  \<^verbatim>\<open>light.BloomTrieFrequency\<close> and the first result of the indexer's \<^verbatim>\<open>Sections()\<close>, the
  number of its completed sections.
\<close>

theorem C10_BloomStatus_total:
  "BloomStatus im b =
     (case les_bloomIndexer (ess b) of
        None \<Rightarrow> (0, 0)
      | Some indexer \<Rightarrow> (BloomTrieFrequency im, fst (Sections indexer)))"
  by (simp add: BloomStatus_def Sections_def split: option.split)

end
